theory Spec2Isabelle
  imports Main
begin

section \<open>JavaScript values and stored documents\<close>

text \<open>
  The controller works on JSON-like values: request fields, MongoDB documents and the
  objects it answers with. A document is an ordered list of named fields; reading a
  field that is not there gives \<open>Undefined\<close>, as a property read does in JavaScript and
  as a missing field does in an aggregation expression.
\<close>

datatype val =
    Undefined
  | Null
  | Str string
  | Oid nat
  | Bool bool
  | Num int
  | Arr "val list"
  | Doc "(string \<times> val) list"

type_synonym doc = "(string \<times> val) list"

definition field :: "doc \<Rightarrow> string \<Rightarrow> val" where
  "field d k = (case map_of d k of None \<Rightarrow> Undefined | Some v \<Rightarrow> v)"

definition unsetField :: "string \<Rightarrow> doc \<Rightarrow> doc" where
  "unsetField k d = filter (\<lambda>kv. fst kv \<noteq> k) d"

fun setField :: "string \<Rightarrow> val \<Rightarrow> doc \<Rightarrow> doc" where
  "setField k v [] = [(k, v)]"
| "setField k v ((k', v') # d) =
     (if k' = k then (k, v) # d else (k', v') # setField k v d)"

text \<open>A value read from a request body: a string, or \<open>undefined\<close> when it was not sent.\<close>

definition ofBody :: "string option \<Rightarrow> val" where
  "ofBody x = (case x of None \<Rightarrow> Undefined | Some s \<Rightarrow> Str s)"

text \<open>What \<open>if (v)\<close>, \<open>!v\<close> and \<open>a || b\<close> test.\<close>

fun truthy :: "val \<Rightarrow> bool" where
  "truthy Undefined = False"
| "truthy Null = False"
| "truthy (Str s) = (s \<noteq> [])"
| "truthy (Bool b) = b"
| "truthy (Num n) = (n \<noteq> 0)"
| "truthy (Oid i) = True"
| "truthy (Arr xs) = True"
| "truthy (Doc d) = True"

text \<open>
  \<open>a === b\<close>: primitives are compared by value; two arrays or two objects are equal only
  when they are the same object, which a value taken from the request and a value loaded
  from the store never are.
\<close>

fun strictEq :: "val \<Rightarrow> val \<Rightarrow> bool" where
  "strictEq (Arr xs) b = False"
| "strictEq (Doc d) b = False"
| "strictEq a b = (a = b)"

subsection \<open>Strings\<close>

text \<open>
  A string is a sequence of code units below 256, that is, of characters of Latin-1;
  \<open>CHR 0xA0\<close> is the no-break space and \<open>CHR 0xC0\<close> to \<open>CHR 0xDE\<close>, without the
  multiplication sign \<open>CHR 0xD7\<close>, are the capital letters beyond ASCII. On these strings
  \<open>toLowerCase\<close> folds every capital letter, and \<open>trim\<close> removes every character that
  \<open>String.prototype.trim\<close> removes: tab, line feed, vertical tab, form feed, carriage
  return, space and no-break space.
\<close>

definition asciiUpper :: string where
  "asciiUpper = ''ABCDEFGHIJKLMNOPQRSTUVWXYZ''"

definition asciiLower :: string where
  "asciiLower = ''abcdefghijklmnopqrstuvwxyz''"

definition asciiDigit :: string where
  "asciiDigit = ''0123456789''"

definition latin1Upper :: string where
  "latin1Upper =
     [CHR 0xC0, CHR 0xC1, CHR 0xC2, CHR 0xC3, CHR 0xC4, CHR 0xC5, CHR 0xC6, CHR 0xC7,
      CHR 0xC8, CHR 0xC9, CHR 0xCA, CHR 0xCB, CHR 0xCC, CHR 0xCD, CHR 0xCE, CHR 0xCF,
      CHR 0xD0, CHR 0xD1, CHR 0xD2, CHR 0xD3, CHR 0xD4, CHR 0xD5, CHR 0xD6,
      CHR 0xD8, CHR 0xD9, CHR 0xDA, CHR 0xDB, CHR 0xDC, CHR 0xDD, CHR 0xDE]"

definition latin1Lower :: string where
  "latin1Lower =
     [CHR 0xE0, CHR 0xE1, CHR 0xE2, CHR 0xE3, CHR 0xE4, CHR 0xE5, CHR 0xE6, CHR 0xE7,
      CHR 0xE8, CHR 0xE9, CHR 0xEA, CHR 0xEB, CHR 0xEC, CHR 0xED, CHR 0xEE, CHR 0xEF,
      CHR 0xF0, CHR 0xF1, CHR 0xF2, CHR 0xF3, CHR 0xF4, CHR 0xF5, CHR 0xF6,
      CHR 0xF8, CHR 0xF9, CHR 0xFA, CHR 0xFB, CHR 0xFC, CHR 0xFD, CHR 0xFE]"

definition toLowerCase :: "string \<Rightarrow> string" where
  "toLowerCase s =
     map (\<lambda>c. case map_of (zip (asciiUpper @ latin1Upper) (asciiLower @ latin1Lower)) c of
                None \<Rightarrow> c
              | Some l \<Rightarrow> l) s"

definition isWhiteSpace :: "char \<Rightarrow> bool" where
  "isWhiteSpace c =
     (c \<in> set [CHR '' '', CHR 0x09, CHR 0x0A, CHR 0x0B, CHR 0x0C, CHR 0x0D, CHR 0xA0])"

definition trim :: "string \<Rightarrow> string" where
  "trim s = rev (dropWhile isWhiteSpace (rev (dropWhile isWhiteSpace s)))"

subsection \<open>The password pattern\<close>

text \<open>
  \<^verbatim>\<open>/^(?=.*[a-z])(?=.*[A-Z])(?=.*\d)(?=.*[@$!%*?&])[A-Za-z\d@$!%*?&]{10,}$/\<close>

  A lookahead \<open>(?=.*[cls])\<close> at the start of the input holds when some character of the
  class is reached over characters that \<open>.\<close> accepts, that is, over anything but a line
  terminator. The body asks for ten or more characters of the listed class up to the end
  of the input.
\<close>

definition isLineTerminator :: "char \<Rightarrow> bool" where
  "isLineTerminator c = (c = CHR 0x0A \<or> c = CHR 0x0D)"

definition lookahead :: "string \<Rightarrow> string \<Rightarrow> bool" where
  "lookahead cls s =
     (case dropWhile (\<lambda>c. c \<notin> set cls \<and> \<not> isLineTerminator c) s of
        [] \<Rightarrow> False
      | c # _ \<Rightarrow> c \<in> set cls)"

definition symbolClass :: string where
  "symbolClass = ''@$!%*?&''"

definition passwordRegex_test :: "string \<Rightarrow> bool" where
  "passwordRegex_test s =
     (lookahead asciiLower s \<and> lookahead asciiUpper s \<and> lookahead asciiDigit s \<and>
      lookahead symbolClass s \<and>
      10 \<le> length s \<and>
      list_all (\<lambda>c. c \<in> set (asciiUpper @ asciiLower @ asciiDigit @ symbolClass)) s)"

text \<open>
  The string a request value stands for; \<open>RegExp.prototype.test\<close> converts its argument
  this way, so a password that was not sent is tested as the text \<open>undefined\<close>.
\<close>

definition jsString :: "string option \<Rightarrow> string" where
  "jsString x = (case x of None \<Rightarrow> ''undefined'' | Some s \<Rightarrow> s)"

section \<open>Errors, responses and the store\<close>

text \<open>
  \<open>ApiError\<close> carries the HTTP status and the message. \<open>ReferenceError\<close> and
  \<open>TypeError\<close> are the runtime's own exceptions, \<open>StoreError\<close> is one thrown by the model
  or the database driver.
\<close>

datatype error =
    ApiError nat string
  | ReferenceError string
  | TypeError string
  | StoreError string

fun errorMessage :: "error \<Rightarrow> string" where
  "errorMessage (ApiError c m) = m"
| "errorMessage (ReferenceError m) = m"
| "errorMessage (TypeError m) = m"
| "errorMessage (StoreError m) = m"

text \<open>The \<open>statusCode\<close> property: only an \<open>ApiError\<close> has one.\<close>

fun statusCode :: "error \<Rightarrow> nat option" where
  "statusCode (ApiError c m) = Some c"
| "statusCode (ReferenceError m) = None"
| "statusCode (TypeError m) = None"
| "statusCode (StoreError m) = None"

record response =
  status :: nat
  cookies :: "(string \<times> val) list"
  data :: val
  message :: string

text \<open>
  Every write to the account store and every call to the external object storage is
  appended to \<open>trace\<close>, so the order of effects of one request can be read off.
\<close>

datatype event =
    UserSaved val
  | UserCreated val
  | UserUpdated val doc
  | CloudUpload string
  | CloudDelete val

record world =
  users :: "doc list"
  subscriptions :: "doc list"
  videos :: "doc list"
  trace :: "event list"

type_synonym 'a outcome = "(error + 'a) \<times> world"

definition thrownStatus :: "'a outcome \<Rightarrow> nat option" where
  "thrownStatus r = (case fst r of Inl err \<Rightarrow> statusCode err | Inr _ \<Rightarrow> None)"

text \<open>
  The collaborators whose code is not part of the controller are parameters: the methods
  and middleware of the \<open>User\<close> model, and the two object-storage helpers.
  \<open>User_create\<close> gives the stored document, or nothing when the model rejects the insert;
  \<open>deleteCloudinaryImage\<close> gives the error it throws, if it throws.
  \<open>ACCESS_TOKEN_SECRET\<close> is the value of that variable of the process environment.
\<close>

record env =
  isPasswordCorrect :: "doc \<Rightarrow> string option \<Rightarrow> bool"
  generateAccessToken :: "doc \<Rightarrow> string"
  generateRefreshToken :: "doc \<Rightarrow> string"
  preSave :: "doc \<Rightarrow> doc"
  User_create :: "doc list \<Rightarrow> doc \<Rightarrow> doc option"
  uploadOnCloudinary :: "string \<Rightarrow> doc option"
  deleteCloudinaryImage :: "val \<Rightarrow> error option"
  ACCESS_TOKEN_SECRET :: string

subsection \<open>Queries and writes of the model\<close>

definition findById :: "world \<Rightarrow> val \<Rightarrow> doc option" where
  "findById w i = find (\<lambda>d. field d ''_id'' = i) (users w)"

definition findOne :: "world \<Rightarrow> (doc \<Rightarrow> bool) \<Rightarrow> doc option" where
  "findOne w p = find p (users w)"

text \<open>
  A query condition \<open>{k: v}\<close>: the stored field equals the value; \<open>undefined\<close> is sent as
  \<open>null\<close>, which also matches a document without the field.
\<close>

definition unNull :: "val \<Rightarrow> val" where
  "unNull v = (if v = Undefined then Null else v)"

definition eqMatch :: "val \<Rightarrow> val \<Rightarrow> bool" where
  "eqMatch l f =
     (unNull f = unNull l \<or> (case f of Arr ys \<Rightarrow> unNull l \<in> set ys | _ \<Rightarrow> False))"

text \<open>
  Modelled from the spec: the schema of the \<open>User\<close> model is not part of the controller.
  The data model has \<open>username\<close> and \<open>email\<close> case-folded, which a schema declares per
  path; the model then folds a string given for such a path wherever it casts one: in
  the filter of \<open>findOne\<close> and in the \<open>$set\<close> of an update, as on insert. The stages of
  \<open>User.aggregate\<close> are not cast, and the handlers that aggregate fold the case
  themselves.
\<close>

definition schemaCast :: "string \<Rightarrow> val \<Rightarrow> val" where
  "schemaCast path v =
     (if path = ''username'' \<or> path = ''email''
      then (case v of Str s \<Rightarrow> Str (toLowerCase s) | _ \<Rightarrow> v)
      else v)"

text \<open>The condition \<open>{path: v}\<close> of a \<open>findOne\<close> filter, after the cast.\<close>

definition pathEq :: "string \<Rightarrow> val \<Rightarrow> doc \<Rightarrow> bool" where
  "pathEq path v d = eqMatch (schemaCast path v) (field d path)"

fun replaceById :: "val \<Rightarrow> doc \<Rightarrow> doc list \<Rightarrow> doc list" where
  "replaceById i d [] = []"
| "replaceById i d (x # xs) =
     (if field x ''_id'' = i then d # xs else x # replaceById i d xs)"

text \<open>\<open>user.save()\<close>: the save middleware runs, then the document replaces the stored one.\<close>

definition save :: "env \<Rightarrow> world \<Rightarrow> doc \<Rightarrow> world" where
  "save e w d =
     w\<lparr>users := replaceById (field d ''_id'') (preSave e d) (users w),
        trace := trace w @ [UserSaved (field d ''_id'')]\<rparr>"

text \<open>
  \<open>User.findByIdAndUpdate(id, update, {new: true})\<close>: the updated document, or \<open>null\<close>
  (and no write) when no document has the id.
\<close>

definition findByIdAndUpdate :: "world \<Rightarrow> val \<Rightarrow> (doc \<Rightarrow> doc) \<Rightarrow> doc option \<times> world" where
  "findByIdAndUpdate w i upd =
     (case findById w i of
        None \<Rightarrow> (None, w)
      | Some d \<Rightarrow>
          (Some (upd d),
           w\<lparr>users := replaceById i (upd d) (users w),
              trace := trace w @ [UserUpdated i (upd d)]\<rparr>))"

text \<open>\<open>.select("-password -refreshToken")\<close> and \<open>.select("-password")\<close>.\<close>

definition select_without :: "string list \<Rightarrow> doc \<Rightarrow> doc" where
  "select_without ks d = filter (\<lambda>kv. fst kv \<notin> set ks) d"

definition respond :: "nat \<Rightarrow> val \<Rightarrow> string \<Rightarrow> response" where
  "respond c v m = \<lparr>status = c, cookies = [], data = v, message = m\<rparr>"

section \<open>Registration, sessions and passwords\<close>

definition genarateAccessTokenAndRefreshToken :: "env \<Rightarrow> world \<Rightarrow> val \<Rightarrow> doc outcome" where
  "genarateAccessTokenAndRefreshToken e w userid =
     (case findById w userid of
        None \<Rightarrow>
          (Inl (ApiError 500 ''Something went wrong for generate Access token or Refresh token''), w)
      | Some user \<Rightarrow>
          let accessToken = generateAccessToken e user;
              refreshToken = generateRefreshToken e user
          in (Inr [(''accessToken'', Str accessToken), (''refreshToken'', Str refreshToken)],
              save e w (setField ''refreshToken'' (Str refreshToken) user)))"

text \<open>\<open>uploaded?.url\<close> on what the upload helper gave.\<close>

definition urlOf :: "doc option \<Rightarrow> val" where
  "urlOf uploaded = (case uploaded of None \<Rightarrow> Undefined | Some d \<Rightarrow> field d ''url'')"

text \<open>
  The object handed to \<open>User.create\<close>: a property whose value is \<open>undefined\<close> is not
  stored.
\<close>

definition objectLiteral :: "doc \<Rightarrow> doc" where
  "objectLiteral kvs = filter (\<lambda>kv. snd kv \<noteq> Undefined) kvs"

text \<open>The body of the \<open>try\<close> block of \<open>registerUser\<close>.\<close>

definition registerUser_try ::
  "env \<Rightarrow> world \<Rightarrow> string option \<Rightarrow> string option \<Rightarrow> string option \<Rightarrow> string option \<Rightarrow>
   string option \<Rightarrow> string option \<Rightarrow> response outcome" where
  "registerUser_try e w username email fullName password avatarLocalPath coverImageLocalPath =
     (if \<not> truthy (ofBody avatarLocalPath)
      then (Inl (ApiError 400 ''Avatar image is required''), w)
      else
        let avatar = uploadOnCloudinary e (jsString avatarLocalPath);
            w1 = w\<lparr>trace := trace w @ [CloudUpload (jsString avatarLocalPath)]\<rparr>;
            coverImage =
              (if truthy (ofBody coverImageLocalPath)
               then uploadOnCloudinary e (jsString coverImageLocalPath) else None);
            w2 = (if truthy (ofBody coverImageLocalPath)
                  then w1\<lparr>trace := trace w1 @ [CloudUpload (jsString coverImageLocalPath)]\<rparr>
                  else w1)
        in case avatar of
             None \<Rightarrow> (Inl (ApiError 500 ''Failed to upload avatar to Cloudinary''), w2)
           | Some av \<Rightarrow>
               let newUser = objectLiteral
                     [(''username'', ofBody username),
                      (''email'', ofBody email),
                      (''fullName'', ofBody fullName),
                      (''avatar'', field av ''url''),
                      (''coverImage'', if truthy (urlOf coverImage) then urlOf coverImage else Str []),
                      (''password'', ofBody password)]
               in case User_create e (users w2) newUser of
                    None \<Rightarrow> (Inl (StoreError ''User validation failed''), w2)
                  | Some user \<Rightarrow>
                      let w3 = w2\<lparr>users := users w2 @ [user],
                                   trace := trace w2 @ [UserCreated (field user ''_id'')]\<rparr>
                      in case findById w3 (field user ''_id'') of
                           None \<Rightarrow>
                             (Inl (ApiError 500 ''Something went wrong while registering the user''), w3)
                         | Some createdUser \<Rightarrow>
                             (Inr (respond 200
                                     (Doc (select_without [''password'', ''refreshToken''] createdUser))
                                     ''User registered successfully''), w3))"

text \<open>
  The two checks before the \<open>try\<close>, then the block; its \<open>catch\<close> rethrows whatever was
  thrown inside as a 500.
\<close>

definition registerUser ::
  "env \<Rightarrow> world \<Rightarrow> string option \<Rightarrow> string option \<Rightarrow> string option \<Rightarrow> string option \<Rightarrow>
   string option \<Rightarrow> string option \<Rightarrow> response outcome" where
  "registerUser e w username email fullName password avatarLocalPath coverImageLocalPath =
     (if list_ex (\<lambda>x. case x of None \<Rightarrow> False | Some s \<Rightarrow> trim s = [])
           [username, email, fullName, password]
      then (Inl (ApiError 400 ''All fields are required''), w)
      else
        case findOne w (\<lambda>d. pathEq ''username'' (ofBody username) d \<or>
                             pathEq ''email'' (ofBody email) d) of
          Some existingUser \<Rightarrow> (Inl (ApiError 400 ''User already exists''), w)
        | None \<Rightarrow>
            case registerUser_try e w username email fullName password
                   avatarLocalPath coverImageLocalPath of
              (Inl err, w') \<Rightarrow>
                (Inl (ApiError 500 ''Internal server error during registration''), w')
            | (Inr r, w') \<Rightarrow> (Inr r, w'))"

definition loginUser ::
  "env \<Rightarrow> world \<Rightarrow> string option \<Rightarrow> string option \<Rightarrow> response outcome" where
  "loginUser e w email password =
     (if \<not> truthy (ofBody email) then (Inl (ApiError 400 ''email is required''), w)
      else
        case findOne w (pathEq ''email'' (Str (toLowerCase (jsString email)))) of
          None \<Rightarrow> (Inl (ApiError 404 ''User does not exist''), w)
        | Some user \<Rightarrow>
            if \<not> isPasswordCorrect e user password
            then (Inl (ApiError 401 ''Invalid user credentials''), w)
            else
              case genarateAccessTokenAndRefreshToken e w (field user ''_id'') of
                (Inl err, w') \<Rightarrow> (Inl err, w')
              | (Inr tokens, w') \<Rightarrow>
                  let loggedInUser =
                        (case findById w' (field user ''_id'') of
                           None \<Rightarrow> Null
                         | Some d \<Rightarrow> Doc (select_without [''password'', ''refreshToken''] d))
                  in (Inr \<lparr>status = 200,
                           cookies = [(''accessToken'', field tokens ''accessToken''),
                                      (''refreshToken'', field tokens ''refreshToken'')],
                           data = Doc [(''user'', loggedInUser),
                                       (''accessToken'', field tokens ''accessToken''),
                                       (''refreshToken'', field tokens ''refreshToken'')],
                           message = ''User logged in successfully''\<rparr>, w'))"

definition logoutUser :: "world \<Rightarrow> nat \<Rightarrow> response outcome" where
  "logoutUser w userId =
     (let w' = snd (findByIdAndUpdate w (Oid userId) (unsetField ''refreshToken''))
      in (Inr \<lparr>status = 200,
               cookies = [(''accessToken'', Str []), (''refreshToken'', Str [])],
               data = Doc [],
               message = ''User logged out successfully''\<rparr>, w'))"

text \<open>
  \<open>refreshAccessToken\<close> calls \<open>jwt.verify\<close>. What the identifier \<open>jwt\<close> is bound to in the
  module is the first parameter: \<open>None\<close> when the module binds nothing to it, in which
  case evaluating it throws a \<open>ReferenceError\<close>; otherwise the verifier, which gives the
  decoded payload or the error it throws. The whole body after the presence check is
  inside \<open>try\<close>, and the \<open>catch\<close> turns whatever was thrown into a 401 with the same
  message.
\<close>

type_synonym jwt_binding = "(string \<Rightarrow> string \<Rightarrow> error + doc) option"

definition refreshAccessToken ::
  "jwt_binding \<Rightarrow> env \<Rightarrow> world \<Rightarrow> string option \<Rightarrow> string option \<Rightarrow> response outcome" where
  "refreshAccessToken jwt e w cookieToken bodyToken =
     (let incomingRefreshToken =
            (if truthy (ofBody cookieToken) then cookieToken else bodyToken)
      in if \<not> truthy (ofBody incomingRefreshToken)
         then (Inl (ApiError 401 ''Unauthorized request''), w)
         else
           let tried =
             (case jwt of
                None \<Rightarrow> (Inl (ReferenceError ''jwt is not defined''), w)
              | Some verify \<Rightarrow>
                  case verify (jsString incomingRefreshToken) (ACCESS_TOKEN_SECRET e) of
                    Inl err \<Rightarrow> (Inl err, w)
                  | Inr decodedToken \<Rightarrow>
                      case findById w (field decodedToken ''_id'') of
                        None \<Rightarrow> (Inl (ApiError 401 ''Invalid refresh token''), w)
                      | Some user \<Rightarrow>
                          if \<not> strictEq (ofBody incomingRefreshToken) (field user ''refreshToken'')
                          then (Inl (ApiError 401 ''Refresh token is expired or used''), w)
                          else
                            case genarateAccessTokenAndRefreshToken e w (field user ''_id'') of
                              (Inl err, w') \<Rightarrow> (Inl err, w')
                            | (Inr tokens, w') \<Rightarrow>
                                (Inr \<lparr>status = 200,
                                      cookies = [(''accessToken'', field tokens ''accessToken''),
                                                 (''refreshToken'', field tokens ''newRefreshToken'')],
                                      data = Doc [(''accessToken'', field tokens ''accessToken''),
                                                  (''refreshToken'', field tokens ''newRefreshToken'')],
                                      message = ''Access token refreshed''\<rparr>, w'))
           in case tried of
                (Inl err, w') \<Rightarrow>
                  (Inl (ApiError 401
                          (if errorMessage err \<noteq> [] then errorMessage err
                           else ''Invalid refresh token'')), w')
              | (Inr r, w') \<Rightarrow> (Inr r, w'))"

text \<open>The controller module imports nothing under the name \<open>jwt\<close>.\<close>

definition module_jwt :: jwt_binding where
  "module_jwt = None"

definition currentPasswordChange ::
  "env \<Rightarrow> world \<Rightarrow> nat \<Rightarrow> string option \<Rightarrow> string option \<Rightarrow> response outcome" where
  "currentPasswordChange e w userId oldPassword newPassword =
     (case findById w (Oid userId) of
        None \<Rightarrow> (Inl (ApiError 404 ''User not found''), w)
      | Some user \<Rightarrow>
          if \<not> isPasswordCorrect e user oldPassword then
            (Inl (ApiError 400 ''Invalid old password''), w)
          else if isPasswordCorrect e user newPassword then
            (Inl (ApiError 400 ''New password cannot be the same as the old password''), w)
          else if \<not> passwordRegex_test (jsString newPassword) then
            (Inl (ApiError 400 ''New password must be at least 10 characters long, contain a mix of uppercase and lowercase letters, a number, and a special character.''), w)
          else
            (Inr (respond 200 (Doc []) ''Password changed successfully''),
             save e w (setField ''password'' (ofBody newPassword) user)))"

definition getCurrentUser :: "world \<Rightarrow> nat \<Rightarrow> response outcome" where
  "getCurrentUser w userId =
     (case findById w (Oid userId) of
        None \<Rightarrow> (Inl (ApiError 404 ''User not found''), w)
      | Some user \<Rightarrow>
          (Inr (respond 200 (Doc user) ''Current user retrieved successfully''), w))"

section \<open>Profile, avatar and cover image\<close>

definition updateAccountDetails ::
  "world \<Rightarrow> nat \<Rightarrow> string option \<Rightarrow> string option \<Rightarrow> response outcome" where
  "updateAccountDetails w userId fullName username =
     (if truthy (ofBody username) \<and>
         (case findOne w (pathEq ''username'' (ofBody username)) of
            None \<Rightarrow> False
          | Some existingUser \<Rightarrow> field existingUser ''_id'' \<noteq> Oid userId)
      then (Inl (ApiError 400 ''Username already exists. Try another one ''), w)
      else
        case findById w (Oid userId) of
          None \<Rightarrow> (Inl (TypeError ''Cannot read properties of null''), w)
        | Some currentUser \<Rightarrow>
            if strictEq (ofBody fullName) (field currentUser ''fullName'') \<or>
               strictEq (ofBody username) (field currentUser ''username'')
            then (Inl (ApiError 400 ''New full name and username cannot be the same as the old ones''), w)
            else
              let updateObject =
                    (if truthy (ofBody fullName) then [(''fullName'', ofBody fullName)] else []) @
                    (if truthy (ofBody username) then [(''username'', ofBody username)] else [])
              in case findByIdAndUpdate w (Oid userId)
                        (\<lambda>d. fold (\<lambda>kv. setField (fst kv) (schemaCast (fst kv) (snd kv)))
                                 updateObject d) of
                   (None, w') \<Rightarrow>
                     (Inl (ApiError 500 ''Something went wrong while updating the user''), w')
                 | (Some updatedUser, w') \<Rightarrow>
                     (Inr (respond 200 (Doc updatedUser) ''User account updated successfully''), w'))"

definition updateAvatarFile :: "env \<Rightarrow> world \<Rightarrow> nat \<Rightarrow> string option \<Rightarrow> response outcome" where
  "updateAvatarFile e w userId avatarLocalPath =
     (case findById w (Oid userId) of
        None \<Rightarrow> (Inl (ApiError 404 ''User not found''), w)
      | Some user \<Rightarrow>
          if \<not> truthy (ofBody avatarLocalPath)
          then (Inl (ApiError 400 ''Avatar file is missing''), w)
          else
            let avatar = uploadOnCloudinary e (jsString avatarLocalPath);
                w1 = w\<lparr>trace := trace w @ [CloudUpload (jsString avatarLocalPath)]\<rparr>
            in if \<not> truthy (urlOf avatar)
               then (Inl (ApiError 500 ''Failed to upload avatar to Cloudinary''), w1)
               else
                 let oldAvatarUrl = field user ''avatar'';
                     deleting = (truthy oldAvatarUrl \<and> \<not> strictEq oldAvatarUrl (urlOf avatar));
                     w2 = (if deleting then w1\<lparr>trace := trace w1 @ [CloudDelete oldAvatarUrl]\<rparr>
                           else w1)
                 in case (if deleting then deleteCloudinaryImage e oldAvatarUrl else None) of
                      Some err \<Rightarrow> (Inl err, w2)
                    | None \<Rightarrow>
                        case findByIdAndUpdate w2 (Oid userId) (setField ''avatar'' (urlOf avatar)) of
                          (None, w3) \<Rightarrow>
                            (Inl (ApiError 500 ''Failed to update user with new avatar''), w3)
                        | (Some updatedUser, w3) \<Rightarrow>
                            (Inr (respond 200 (Doc (select_without [''password''] updatedUser))
                                    ''Avatar updated successfully''), w3))"

definition updateCoverImageFile :: "env \<Rightarrow> world \<Rightarrow> nat \<Rightarrow> string option \<Rightarrow> response outcome" where
  "updateCoverImageFile e w userId coverImageLocalPath =
     (case findById w (Oid userId) of
        None \<Rightarrow> (Inl (ApiError 404 ''User not found''), w)
      | Some user \<Rightarrow>
          if \<not> truthy (ofBody coverImageLocalPath)
          then (Inl (ApiError 400 ''Cover image file is missing''), w)
          else
            let coverImage = uploadOnCloudinary e (jsString coverImageLocalPath);
                w1 = w\<lparr>trace := trace w @ [CloudUpload (jsString coverImageLocalPath)]\<rparr>
            in if \<not> truthy (urlOf coverImage)
               then (Inl (ApiError 500 ''Failed to upload cover image to Cloudinary''), w1)
               else
                 let oldCoverImageUrl = field user ''coverImage''
                 in case findByIdAndUpdate w1 (Oid userId) (setField ''coverImage'' (urlOf coverImage)) of
                      (None, w2) \<Rightarrow>
                        (Inl (ApiError 500 ''Something went wrong while updating the cover image''), w2)
                    | (Some updatedUser, w2) \<Rightarrow>
                        let deleting = (truthy oldCoverImageUrl \<and>
                                        \<not> strictEq oldCoverImageUrl (urlOf coverImage));
                            w3 = (if deleting
                                  then w2\<lparr>trace := trace w2 @ [CloudDelete oldCoverImageUrl]\<rparr>
                                  else w2)
                        in case (if deleting then deleteCloudinaryImage e oldCoverImageUrl else None) of
                             Some err \<Rightarrow> (Inl err, w3)
                           | None \<Rightarrow>
                               (Inr (respond 200
                                       (Doc (select_without [''password'', ''refreshToken''] updatedUser))
                                       ''Cover image updated successfully''), w3))"

section \<open>Aggregation pipelines\<close>

text \<open>
  A collection is the list of its documents in the order the server scans them.
  \<open>$lookup\<close> takes, for one input document, the documents of the foreign collection whose
  \<open>foreignField\<close> matches the \<open>localField\<close> (any of its elements when that is an array; a
  missing field counts as \<open>null\<close>), runs the inner pipeline on them and stores the
  resulting array under \<open>as\<close>. The array is built while scanning the foreign collection.
\<close>

definition lookupMatch :: "val \<Rightarrow> val \<Rightarrow> bool" where
  "lookupMatch l f = (case l of Arr xs \<Rightarrow> list_ex (\<lambda>x. eqMatch x f) xs | _ \<Rightarrow> eqMatch l f)"

definition lookup ::
  "doc list \<Rightarrow> string \<Rightarrow> string \<Rightarrow> string \<Rightarrow> (doc list \<Rightarrow> doc list) \<Rightarrow> doc \<Rightarrow> doc" where
  "lookup from localField foreignField as pipeline d =
     setField as
       (Arr (map Doc (pipeline
          (filter (\<lambda>f. lookupMatch (field d localField) (field f foreignField)) from))))
       d"

text \<open>\<open>$project\<close> with inclusions keeps \<open>_id\<close> and the listed fields.\<close>

definition project :: "string list \<Rightarrow> doc \<Rightarrow> doc" where
  "project ks d = filter (\<lambda>kv. fst kv \<in> set (''_id'' # ks)) d"

text \<open>\<open>$addFields\<close>: an expression without a value removes the field.\<close>

definition addField :: "string \<Rightarrow> val \<Rightarrow> doc \<Rightarrow> doc" where
  "addField k v d = (if v = Undefined then unsetField k d else setField k v d)"

text \<open>\<open>"$a.b"\<close>, \<open>$size\<close>, \<open>$in\<close> and \<open>$first\<close> on what \<open>$lookup\<close> stored.\<close>

definition pathValues :: "doc \<Rightarrow> string \<Rightarrow> string \<Rightarrow> val list" where
  "pathValues d a b =
     (case field d a of
        Arr xs \<Rightarrow>
          concat (map (\<lambda>x. case x of
                              Doc sub \<Rightarrow> (if field sub b = Undefined then [] else [field sub b])
                            | _ \<Rightarrow> []) xs)
      | _ \<Rightarrow> [])"

definition sizeOf :: "val \<Rightarrow> val" where
  "sizeOf v = (case v of Arr xs \<Rightarrow> Num (int (length xs)) | _ \<Rightarrow> Undefined)"

definition firstOf :: "val \<Rightarrow> val" where
  "firstOf v = (case v of Arr (x # _) \<Rightarrow> x | _ \<Rightarrow> Undefined)"

definition getUserChannelProfile :: "world \<Rightarrow> nat \<Rightarrow> string option \<Rightarrow> response outcome" where
  "getUserChannelProfile w viewerId username =
     (if \<not> truthy (case username of None \<Rightarrow> Undefined | Some u \<Rightarrow> Str (trim u))
      then (Inl (ApiError 404 ''Username is missing''), w)
      else
        let channel =
          map (\<lambda>d0.
                 let d1 = lookup (subscriptions w) ''_id'' ''channel'' ''subscribers'' id d0;
                     d2 = lookup (subscriptions w) ''_id'' ''subscriber'' ''subscribedTo'' id d1;
                     d3 = addField ''isCurrentUserSubscribe''
                            (if Oid viewerId \<in> set (pathValues d2 ''subscribers'' ''subscriber'')
                             then Bool True else Bool False)
                            (addField ''subscribedToCount'' (sizeOf (field d2 ''subscribedTo''))
                               (addField ''subscribersCount'' (sizeOf (field d2 ''subscribers'')) d2))
                 in project [''fullName'', ''avatar'', ''coverImage'', ''username'', ''email'',
                             ''subscribersCount'', ''subscribedToCount'', ''isCurrentUserSubscribe''] d3)
              (filter (\<lambda>d. eqMatch (Str (toLowerCase (jsString username))) (field d ''username''))
                      (users w))
        in case channel of
             [] \<Rightarrow> (Inl (ApiError 404 ''Channel does not exist''), w)
           | c # _ \<Rightarrow> (Inr (respond 200 (Doc c) ''Channel data accessed successfully''), w))"

definition ownerStage :: "world \<Rightarrow> doc \<Rightarrow> doc" where
  "ownerStage w v =
     (let v1 = lookup (users w) ''owner'' ''_id'' ''owner''
                 (map (project [''fullName'', ''avatar'', ''username''])) v
      in addField ''owner'' (firstOf (field v1 ''owner'')) v1)"

definition getWatchHistory :: "world \<Rightarrow> nat \<Rightarrow> response outcome" where
  "getWatchHistory w userId =
     (let user =
            map (lookup (videos w) ''watchhistory'' ''_id'' ''watchHistory'' (map (ownerStage w)))
                (filter (\<lambda>d. eqMatch (Oid userId) (field d ''_id'')) (users w))
      in case user of
           [] \<Rightarrow> (Inr (respond 404 (Doc []) ''No watch history found''), w)
         | u # _ \<Rightarrow>
             if \<not> truthy (field u ''watchHistory'')
             then (Inr (respond 404 (Doc []) ''No watch history found''), w)
             else (Inr (respond 200 (field u ''watchHistory'')
                          ''Watch history accessed successfully''), w))"

text \<open>The documents of an array value, for reading a returned list.\<close>

definition docsOf :: "val \<Rightarrow> doc list" where
  "docsOf v =
     (case v of
        Arr xs \<Rightarrow> concat (map (\<lambda>x. case x of Doc d \<Rightarrow> [d] | _ \<Rightarrow> []) xs)
      | _ \<Rightarrow> [])"

definition docOf :: "val \<Rightarrow> doc" where
  "docOf v = (case v of Doc d \<Rightarrow> d | _ \<Rightarrow> [])"

definition videoIds :: "val \<Rightarrow> val list" where
  "videoIds v = map (\<lambda>d. field d ''_id'') (docsOf v)"

text \<open>The \<open>data\<close> of the response a handler sent, if it sent one.\<close>

definition returned :: "response outcome \<Rightarrow> val" where
  "returned r = (case fst r of Inl err \<Rightarrow> Undefined | Inr resp \<Rightarrow> data resp)"

definition sentStatus :: "response outcome \<Rightarrow> nat option" where
  "sentStatus r = (case fst r of Inl err \<Rightarrow> None | Inr resp \<Rightarrow> Some (status resp))"

text \<open>The subscription edges whose channel is the account with the given id.\<close>

definition edgesToward :: "world \<Rightarrow> nat \<Rightarrow> doc list" where
  "edgesToward w cid = filter (\<lambda>s. field s ''channel'' = Oid cid) (subscriptions w)"

section \<open>The password policy in the words of the specification\<close>

text \<open>
  At least ten characters, with a lowercase letter, an uppercase letter, a digit and one
  of the symbols \<open>@$!%*?&\<close>.
\<close>

definition strongPassword :: "string \<Rightarrow> bool" where
  "strongPassword s =
     (10 \<le> length s \<and>
      list_ex (\<lambda>c. c \<in> set asciiLower) s \<and>
      list_ex (\<lambda>c. c \<in> set asciiUpper) s \<and>
      list_ex (\<lambda>c. c \<in> set asciiDigit) s \<and>
      list_ex (\<lambda>c. c \<in> set symbolClass) s)"

section \<open>A small installation\<close>

text \<open>
  Concrete collaborators and a concrete store, on which the theorems below are
  instantiated: four accounts, the two subscriptions of alice and bob to carol, and three
  videos. Alice has watched the videos 13, 11 and 12, in this order.
\<close>

definition sampleEnv :: env where
  "sampleEnv =
     \<lparr>isPasswordCorrect =
        (\<lambda>d p. case p of None \<Rightarrow> False | Some s \<Rightarrow> field d ''password'' = Str (''bcrypt:'' @ s)),
      generateAccessToken =
        (\<lambda>d. ''access:'' @ (case field d ''username'' of Str s \<Rightarrow> s | _ \<Rightarrow> [])),
      generateRefreshToken =
        (\<lambda>d. ''refresh:'' @ (case field d ''username'' of Str s \<Rightarrow> s | _ \<Rightarrow> [])),
      preSave =
        (\<lambda>d. case field d ''password'' of
                Str s \<Rightarrow> (if take 7 s = ''bcrypt:'' then d
                          else setField ''password'' (Str (''bcrypt:'' @ s)) d)
              | _ \<Rightarrow> d),
      User_create =
        (\<lambda>us d.
           let u = (case field d ''username'' of Str s \<Rightarrow> Str (toLowerCase s) | v \<Rightarrow> v);
               m = (case field d ''email'' of Str s \<Rightarrow> Str (toLowerCase s) | v \<Rightarrow> v)
           in if list_ex (\<lambda>x. field x ''username'' = u \<or> field x ''email'' = m) us then None
              else Some ((''_id'', Oid (length us + 101)) #
                         setField ''username'' u (setField ''email'' m
                           (setField ''password''
                              (case field d ''password'' of Str s \<Rightarrow> Str (''bcrypt:'' @ s) | v \<Rightarrow> v)
                              d)))),
      uploadOnCloudinary = (\<lambda>p. Some [(''url'', Str (''cdn/'' @ p))]),
      deleteCloudinaryImage = (\<lambda>v. None),
      ACCESS_TOKEN_SECRET = ''secret''\<rparr>"

definition alice :: doc where
  "alice = [(''_id'', Oid 101), (''username'', Str ''alice''), (''email'', Str ''alice@example.com''),
            (''fullName'', Str ''Alice A''), (''avatar'', Str ''cdn/a.png''),
            (''password'', Str ''bcrypt:Secret#12345''),
            (''watchHistory'', Arr [Oid 13, Oid 11, Oid 12])]"

definition bob :: doc where
  "bob = [(''_id'', Oid 102), (''username'', Str ''bob''), (''email'', Str ''bob@example.com''),
          (''fullName'', Str ''Bob B''), (''avatar'', Str ''cdn/b.png''),
          (''password'', Str ''bcrypt:Hunter#22222'')]"

definition carol :: doc where
  "carol = [(''_id'', Oid 103), (''username'', Str ''carol''), (''email'', Str ''carol@example.com''),
            (''fullName'', Str ''Carol C''), (''avatar'', Str ''cdn/c.png''),
            (''password'', Str ''bcrypt:Orange#33333'')]"

definition zed :: doc where
  "zed = [(''_id'', Oid 104), (''username'', Str ''zed''), (''email'', Str ''zed@example.com''),
          (''fullName'', Str ''Zed Z''), (''avatar'', Str ''cdn/z.png''),
          (''password'', Str ''bcrypt:Purple#44444'')]"

definition sampleWorld :: world where
  "sampleWorld =
     \<lparr>users = [alice, bob, carol, zed],
      subscriptions =
        [[(''_id'', Oid 21), (''subscriber'', Oid 101), (''channel'', Oid 103)],
         [(''_id'', Oid 22), (''subscriber'', Oid 102), (''channel'', Oid 103)]],
      videos =
        [[(''_id'', Oid 11), (''title'', Str ''one''), (''owner'', Oid 103)],
         [(''_id'', Oid 12), (''title'', Str ''two''), (''owner'', Oid 103)],
         [(''_id'', Oid 13), (''title'', Str ''three''), (''owner'', Oid 102)]],
      trace = []\<rparr>"

section \<open>Reading fields of built documents\<close>

lemma map_of_filter_keys:
  "map_of (filter (\<lambda>kv. P (fst kv)) d) k = (if P k then map_of d k else None)"
  by (induction d) auto

lemma field_setField: "field (setField k v d) k' = (if k' = k then v else field d k')"
  by (induction d) (auto simp: field_def)

lemma field_unsetField: "field (unsetField k d) k' = (if k' = k then Undefined else field d k')"
  by (simp add: field_def unsetField_def map_of_filter_keys [where P = "\<lambda>x. x \<noteq> k"])

lemma field_addField: "field (addField k v d) k' = (if k' = k then v else field d k')"
  by (simp add: addField_def field_setField field_unsetField)

lemma field_select_without:
  "field (select_without ks d) k = (if k \<in> set ks then Undefined else field d k)"
  by (simp add: field_def select_without_def map_of_filter_keys [where P = "\<lambda>x. x \<notin> set ks"])

lemma field_project:
  "field (project ks d) k = (if k \<in> set (''_id'' # ks) then field d k else Undefined)"
proof -
  have "map_of (filter (\<lambda>kv. fst kv \<in> set (''_id'' # ks)) d) k =
        (if k \<in> set (''_id'' # ks) then map_of d k else None)"
    by (rule map_of_filter_keys [where P = "\<lambda>x. x \<in> set (''_id'' # ks)"])
  then show ?thesis by (simp add: field_def project_def)
qed

lemma field_lookup:
  "field (lookup coll lf ff as pl d) k =
     (if k = as
      then Arr (map Doc (pl (filter (\<lambda>f. lookupMatch (field d lf) (field f ff)) coll)))
      else field d k)"
  by (simp add: lookup_def field_setField)

lemma field_Nil [simp]: "field [] k = Undefined"
  by (simp add: field_def)

lemma first_of_map_filter:
  "(case map f (filter p xs) of [] \<Rightarrow> a | x # _ \<Rightarrow> b x) =
   (case find p xs of None \<Rightarrow> a | Some x \<Rightarrow> b (f x))"
  by (induction xs) auto

lemma returned_catch:
  "returned (case r of (Inl err, w') \<Rightarrow> (Inl x, w') | (Inr v, w') \<Rightarrow> (Inr v, w')) =
   returned r"
  by (cases r) (auto simp: returned_def split: sum.splits)

lemma findById_trace [simp]: "findById (w\<lparr>trace := t\<rparr>) i = findById w i"
  by (simp add: findById_def)

section \<open>Facts about the small installation\<close>

lemmas sample_defs =
  sampleWorld_def sampleEnv_def alice_def bob_def carol_def zed_def

lemmas lower_defs =
  toLowerCase_def asciiUpper_def asciiLower_def latin1Upper_def latin1Lower_def

lemma findById_alice: "findById sampleWorld (Oid 101) = Some alice"
  by (simp add: findById_def sample_defs field_def)

lemma find_alice:
  "find (\<lambda>d. eqMatch (Oid 101) (field d ''_id'')) (users sampleWorld) = Some alice"
  by (simp add: sample_defs eqMatch_def unNull_def field_def)

lemma find_carol:
  "find (\<lambda>d. eqMatch (Str (toLowerCase ''Carol'')) (field d ''username'')) (users sampleWorld) = Some carol"
  by (simp add: sample_defs lower_defs eqMatch_def unNull_def field_def)

lemma sample_edges_typed:
  "\<forall>s\<in>set (subscriptions sampleWorld). \<exists>n. field s ''channel'' = Oid n"
  by (simp add: sampleWorld_def field_def)

lemma sample_edges_toward_carol:
  "map (\<lambda>s. field s ''subscriber'') (edgesToward sampleWorld 103) = [Oid 101, Oid 102]"
  by (simp add: edgesToward_def sampleWorld_def field_def)

lemma sample_videos_typed:
  "\<forall>v\<in>set (videos sampleWorld). \<exists>n. field v ''_id'' = Oid n"
  by (simp add: sampleWorld_def field_def)

lemma sample_no_blank:
  "\<not> list_ex (\<lambda>x. case x of None \<Rightarrow> False | Some s \<Rightarrow> trim s = [])
       [Some ''dave'', Some ''ALICE@example.com'', Some ''Dave D'', Some ''Passw0rd!!x'']"
  by (simp add: trim_def isWhiteSpace_def)

lemma sample_dave_free:
  "findOne sampleWorld
     (\<lambda>d. pathEq ''username'' (ofBody (Some ''dave'')) d \<or>
          pathEq ''email'' (ofBody (Some ''dave@example.com'')) d) = None"
  by (simp add: findOne_def sample_defs pathEq_def schemaCast_def lower_defs eqMatch_def unNull_def
        ofBody_def field_def)

lemma sample_dave_no_blank:
  "\<not> list_ex (\<lambda>x. case x of None \<Rightarrow> False | Some s \<Rightarrow> trim s = [])
       [Some ''dave'', Some ''dave@example.com'', Some ''Dave D'', Some ''Passw0rd!!x'']"
  by (simp add: trim_def isWhiteSpace_def)

lemma sample_login:
  "loginUser sampleEnv sampleWorld (Some ''Alice@Example.com'') (Some ''Secret#12345'') =
     (Inr \<lparr>status = 200,
           cookies = [(''accessToken'', Str ''access:alice''), (''refreshToken'', Str ''refresh:alice'')],
           data = Doc [(''user'', Doc (select_without [''password'', ''refreshToken'']
                                         (setField ''refreshToken'' (Str ''refresh:alice'') alice))),
                       (''accessToken'', Str ''access:alice''),
                       (''refreshToken'', Str ''refresh:alice'')],
           message = ''User logged in successfully''\<rparr>,
      sampleWorld\<lparr>users := [setField ''refreshToken'' (Str ''refresh:alice'') alice, bob, carol, zed],
                   trace := [UserSaved (Oid 101)]\<rparr>)"
  by (simp add: loginUser_def sample_defs ofBody_def jsString_def lower_defs pathEq_def
        schemaCast_def findOne_def findById_def eqMatch_def unNull_def field_def Let_def
        genarateAccessTokenAndRefreshToken_def save_def select_without_def)

section \<open>Login followed by refresh\<close>

text \<open>
  With nothing bound to \<open>jwt\<close>, a refresh request never gets past the verification step:
  a request without a token is refused by the presence check, any other by the
  \<open>catch\<close> that receives the \<open>ReferenceError\<close>. Nothing is written.
\<close>

lemma refreshAccessToken_unbound_jwt:
  "thrownStatus (refreshAccessToken None e w cookieToken bodyToken) = Some 401 \<and>
   snd (refreshAccessToken None e w cookieToken bodyToken) = w"
  by (simp add: refreshAccessToken_def Let_def thrownStatus_def)

text \<open>
  Even with a verifier bound to \<open>jwt\<close>, a successful refresh sends no refresh token: the
  handler reads the property \<open>newRefreshToken\<close> of an object whose properties are
  \<open>accessToken\<close> and \<open>refreshToken\<close>.
\<close>

lemma refreshAccessToken_bound_jwt_sends_no_refresh_token:
  assumes "refreshAccessToken (Some verify) e w cookieToken bodyToken = (Inr r, w')"
  shows "field (docOf (data r)) ''refreshToken'' = Undefined"
  using assms
  by (auto simp: refreshAccessToken_def Let_def genarateAccessTokenAndRefreshToken_def
        docOf_def field_def
      split: if_splits sum.splits option.splits prod.splits)

text \<open>
  C1. Whenever a login succeeded and issued the refresh token \<open>rt\<close>, the refresh request
  that presents \<open>rt\<close> right afterwards is answered with status 401: no response is sent,
  no new token pair is issued and the stored refresh token is left as the login wrote it.
  The specification has this first refresh succeed.
\<close>

theorem refreshAccessToken_after_login:
  assumes "loginUser e w email password = (Inr r, w')"
    and "field (docOf (data r)) ''refreshToken'' = Str rt"
  shows "thrownStatus (refreshAccessToken module_jwt e w' (Some rt) bodyToken) = Some 401 \<and>
         sentStatus (refreshAccessToken module_jwt e w' (Some rt) bodyToken) = None \<and>
         snd (refreshAccessToken module_jwt e w' (Some rt) bodyToken) = w'"
  using refreshAccessToken_unbound_jwt [of e w' "Some rt" bodyToken]
  by (auto simp: module_jwt_def thrownStatus_def sentStatus_def split: sum.splits)

text \<open>
  The same on the small installation: alice logs in, receives \<open>refresh:alice\<close>, and the
  refresh with that token is refused.
\<close>

theorem refreshAccessToken_after_login_witness:
  "sentStatus (loginUser sampleEnv sampleWorld (Some ''Alice@Example.com'') (Some ''Secret#12345'')) =
     Some 200 \<and>
   field (docOf (returned (loginUser sampleEnv sampleWorld (Some ''Alice@Example.com'')
                             (Some ''Secret#12345'')))) ''refreshToken'' = Str ''refresh:alice'' \<and>
   thrownStatus (refreshAccessToken module_jwt sampleEnv
                   (snd (loginUser sampleEnv sampleWorld (Some ''Alice@Example.com'')
                           (Some ''Secret#12345'')))
                   (Some ''refresh:alice'') None) = Some 401"
proof -
  have tok: "field (docOf (data \<lparr>status = 200,
           cookies = [(''accessToken'', Str ''access:alice''), (''refreshToken'', Str ''refresh:alice'')],
           data = Doc [(''user'', Doc (select_without [''password'', ''refreshToken'']
                                         (setField ''refreshToken'' (Str ''refresh:alice'') alice))),
                       (''accessToken'', Str ''access:alice''),
                       (''refreshToken'', Str ''refresh:alice'')],
           message = ''User logged in successfully''\<rparr>)) ''refreshToken'' = Str ''refresh:alice''"
    by (simp add: docOf_def field_def)
  show ?thesis
    using refreshAccessToken_after_login [OF sample_login tok, of None]
    by (simp add: sample_login sentStatus_def returned_def docOf_def field_def)
qed

section \<open>Watch history\<close>

lemma lookupMatch_missing: "lookupMatch Undefined (Oid n) = False"
  by (simp add: lookupMatch_def eqMatch_def unNull_def)

lemma lookup_missing_localField:
  assumes "field d lf = Undefined"
    and "\<forall>f\<in>set coll. \<exists>n. field f ff = Oid n"
  shows "filter (\<lambda>f. lookupMatch (field d lf) (field f ff)) coll = []"
  using assms by (auto simp: filter_empty_conv lookupMatch_missing)

text \<open>
  C2. Let the first account with the caller's id hold its history under \<open>watchHistory\<close>,
  as the data model has it, and no field \<open>watchhistory\<close>; let every stored video have an
  id. The pipeline joins on \<open>watchhistory\<close>, so it joins nothing: the handler answers 200
  with the empty list, whatever the history is, and for a history that is not empty the
  ids of the answer are not the stored sequence. The specification has the answer list
  the history in its stored order.
\<close>

theorem getWatchHistory_joins_nothing:
  assumes u: "find (\<lambda>d. eqMatch (Oid userId) (field d ''_id'')) (users w) = Some u"
    and h: "field u ''watchHistory'' = Arr history"
    and m: "field u ''watchhistory'' = Undefined"
    and typed: "\<forall>v\<in>set (videos w). \<exists>n. field v ''_id'' = Oid n"
  shows "sentStatus (getWatchHistory w userId) = Some 200 \<and>
         returned (getWatchHistory w userId) = Arr [] \<and>
         (history \<noteq> [] \<longrightarrow> videoIds (returned (getWatchHistory w userId)) \<noteq> history)"
proof -
  have none: "filter (\<lambda>f. lookupMatch (field u ''watchhistory'') (field f ''_id'')) (videos w) = []"
    using m typed by (rule lookup_missing_localField)
  have ret: "fst (getWatchHistory w userId) =
             Inr (respond 200 (Arr []) ''Watch history accessed successfully'')"
    using u unfolding getWatchHistory_def Let_def first_of_map_filter
    by (simp add: field_lookup none)
  have r: "returned (getWatchHistory w userId) = Arr []"
    by (simp add: returned_def ret respond_def)
  show ?thesis
    using ret r by (simp add: sentStatus_def respond_def videoIds_def docsOf_def)
qed

text \<open>
  On the small installation: alice has watched 13, 11 and 12, every one of them a stored
  video, and her watch history is answered with the empty list.
\<close>

theorem getWatchHistory_joins_nothing_witness:
  "field alice ''watchHistory'' = Arr [Oid 13, Oid 11, Oid 12] \<and>
   map (\<lambda>v. field v ''_id'') (videos sampleWorld) = [Oid 11, Oid 12, Oid 13] \<and>
   sentStatus (getWatchHistory sampleWorld 101) = Some 200 \<and>
   returned (getWatchHistory sampleWorld 101) = Arr [] \<and>
   videoIds (returned (getWatchHistory sampleWorld 101)) \<noteq> [Oid 13, Oid 11, Oid 12]"
proof -
  have h: "field alice ''watchHistory'' = Arr [Oid 13, Oid 11, Oid 12]"
    by (simp add: alice_def field_def)
  have m: "field alice ''watchhistory'' = Undefined"
    by (simp add: alice_def field_def)
  have v: "map (\<lambda>v. field v ''_id'') (videos sampleWorld) = [Oid 11, Oid 12, Oid 13]"
    by (simp add: sampleWorld_def field_def)
  have n: "[Oid 13, Oid 11, Oid 12] \<noteq> []"
    by simp
  show ?thesis
    using getWatchHistory_joins_nothing [OF find_alice h m sample_videos_typed] n h v
    by blast
qed

section \<open>Channel profile\<close>

lemma subfield_values_mem:
  "Oid v \<in> set (concat (map (\<lambda>x. case x of
                                     Doc sub \<Rightarrow> (if field sub b = Undefined then [] else [field sub b])
                                   | _ \<Rightarrow> []) (map Doc es))) \<longleftrightarrow>
   (\<exists>s\<in>set es. field s b = Oid v)"
  by (induction es) auto

lemma pathValues_mem:
  "field d a = Arr (map Doc es) \<Longrightarrow>
   Oid v \<in> set (pathValues d a b) \<longleftrightarrow> (\<exists>s\<in>set es. field s b = Oid v)"
  unfolding pathValues_def by (simp only: val.case subfield_values_mem)

lemma eqMatch_Oid: "eqMatch (Oid a) (Oid b) \<longleftrightarrow> b = a"
  by (simp add: eqMatch_def unNull_def)

lemma lookupMatch_Oid: "lookupMatch (Oid a) (Oid b) \<longleftrightarrow> b = a"
  by (simp add: lookupMatch_def eqMatch_Oid)

lemma joined_edges:
  assumes "\<forall>s\<in>set ss. \<exists>n. field s ''channel'' = Oid n"
  shows "filter (\<lambda>s. lookupMatch (Oid cid) (field s ''channel'')) ss =
         filter (\<lambda>s. field s ''channel'' = Oid cid) ss"
  using assms by (intro filter_cong) (auto simp: lookupMatch_Oid)

text \<open>
  C3. Let \<open>c\<close> be the first account whose username is the requested one in lower case,
  and let every subscription edge name a channel. Then the handler answers 200 with
  \<open>subscribersCount\<close> the number of edges whose channel is \<open>c\<close>, and with
  \<open>isCurrentUserSubscribe\<close> true exactly when the viewer's id is the subscriber of one of
  these edges. In particular, when these edges are exactly \<open>a \<rightarrow> c\<close> and \<open>b \<rightarrow> c\<close>, the
  count is 2, the flag is true for viewer \<open>a\<close> and false for a viewer that is neither \<open>a\<close>
  nor \<open>b\<close>.
\<close>

theorem getUserChannelProfile_subscribers:
  assumes u: "trim u \<noteq> []"
    and c: "find (\<lambda>d. eqMatch (Str (toLowerCase u)) (field d ''username'')) (users w) = Some c"
    and cid: "field c ''_id'' = Oid cid"
    and typed: "\<forall>s\<in>set (subscriptions w). \<exists>n. field s ''channel'' = Oid n"
  shows "sentStatus (getUserChannelProfile w viewer (Some u)) = Some 200 \<and>
     field (docOf (returned (getUserChannelProfile w viewer (Some u)))) ''subscribersCount'' =
       Num (int (length (edgesToward w cid))) \<and>
     field (docOf (returned (getUserChannelProfile w viewer (Some u)))) ''isCurrentUserSubscribe'' =
       Bool (\<exists>s\<in>set (edgesToward w cid). field s ''subscriber'' = Oid viewer) \<and>
     (\<forall>a b. map (\<lambda>s. field s ''subscriber'') (edgesToward w cid) = [Oid a, Oid b] \<longrightarrow>
        field (docOf (returned (getUserChannelProfile w viewer (Some u)))) ''subscribersCount'' = Num 2 \<and>
        (viewer = a \<longrightarrow>
           field (docOf (returned (getUserChannelProfile w viewer (Some u)))) ''isCurrentUserSubscribe'' =
             Bool True) \<and>
        (viewer \<noteq> a \<and> viewer \<noteq> b \<longrightarrow>
           field (docOf (returned (getUserChannelProfile w viewer (Some u)))) ''isCurrentUserSubscribe'' =
             Bool False))"
proof -
  let ?r = "docOf (returned (getUserChannelProfile w viewer (Some u)))"
  let ?d1 = "lookup (subscriptions w) ''_id'' ''channel'' ''subscribers'' id c"
  let ?d2 = "lookup (subscriptions w) ''_id'' ''subscriber'' ''subscribedTo'' id ?d1"
  have subs: "field ?d2 ''subscribers'' = Arr (map Doc (edgesToward w cid))"
    using joined_edges [OF typed, of cid] by (simp add: field_lookup edgesToward_def cid)
  have mem: "Oid viewer \<in> set (pathValues ?d2 ''subscribers'' ''subscriber'') \<longleftrightarrow>
             (\<exists>s\<in>set (edgesToward w cid). field s ''subscriber'' = Oid viewer)"
    using subs by (rule pathValues_mem)
  have main: "sentStatus (getUserChannelProfile w viewer (Some u)) = Some 200 \<and>
     field ?r ''subscribersCount'' = Num (int (length (edgesToward w cid))) \<and>
     field ?r ''isCurrentUserSubscribe'' =
       Bool (\<exists>s\<in>set (edgesToward w cid). field s ''subscriber'' = Oid viewer)"
    using u c mem subs
    unfolding getUserChannelProfile_def Let_def first_of_map_filter
    by (simp add: sentStatus_def returned_def docOf_def respond_def jsString_def
          field_project field_addField sizeOf_def)
  have two: "field ?r ''subscribersCount'' = Num 2 \<and>
        (viewer = a \<longrightarrow> field ?r ''isCurrentUserSubscribe'' = Bool True) \<and>
        (viewer \<noteq> a \<and> viewer \<noteq> b \<longrightarrow> field ?r ''isCurrentUserSubscribe'' = Bool False)"
    if ab: "map (\<lambda>s. field s ''subscriber'') (edgesToward w cid) = [Oid a, Oid b]" for a b
  proof -
    have len: "length (edgesToward w cid) = 2"
      using arg_cong [OF ab, of length] by simp
    have ex: "(\<exists>s\<in>set (edgesToward w cid). field s ''subscriber'' = Oid viewer) \<longleftrightarrow>
              Oid viewer \<in> set (map (\<lambda>s. field s ''subscriber'') (edgesToward w cid))"
      by (force simp: image_iff)
    show ?thesis using main len unfolding ex ab by auto
  qed
  show ?thesis using main two by blast
qed

text \<open>
  On the small installation, the edges toward carol are those of alice and bob: the count
  is 2, the flag is true for alice and false for zed.
\<close>

theorem getUserChannelProfile_subscribers_witness:
  "map (\<lambda>s. field s ''subscriber'') (edgesToward sampleWorld 103) = [Oid 101, Oid 102] \<and>
   field (docOf (returned (getUserChannelProfile sampleWorld 101 (Some ''Carol'')))) ''subscribersCount''
     = Num 2 \<and>
   field (docOf (returned (getUserChannelProfile sampleWorld 101 (Some ''Carol''))))
     ''isCurrentUserSubscribe'' = Bool True \<and>
   field (docOf (returned (getUserChannelProfile sampleWorld 104 (Some ''Carol''))))
     ''isCurrentUserSubscribe'' = Bool False"
proof -
  have t: "trim ''Carol'' \<noteq> []"
    by (simp add: trim_def isWhiteSpace_def)
  have c: "field carol ''_id'' = Oid 103"
    by (simp add: carol_def field_def)
  have a: "field (docOf (returned (getUserChannelProfile sampleWorld 101 (Some ''Carol''))))
             ''subscribersCount'' = Num 2 \<and>
           field (docOf (returned (getUserChannelProfile sampleWorld 101 (Some ''Carol''))))
             ''isCurrentUserSubscribe'' = Bool True"
    using getUserChannelProfile_subscribers
            [OF t find_carol c sample_edges_typed, of 101,
             THEN conjunct2, THEN conjunct2, THEN conjunct2,
             THEN spec [of _ 101], THEN spec [of _ 102], THEN mp, OF sample_edges_toward_carol]
    by simp
  have z: "field (docOf (returned (getUserChannelProfile sampleWorld 104 (Some ''Carol''))))
             ''isCurrentUserSubscribe'' = Bool False"
    using getUserChannelProfile_subscribers
            [OF t find_carol c sample_edges_typed, of 104,
             THEN conjunct2, THEN conjunct2, THEN conjunct2,
             THEN spec [of _ 101], THEN spec [of _ 102], THEN mp, OF sample_edges_toward_carol]
    by simp
  show ?thesis using a z sample_edges_toward_carol by simp
qed

section \<open>The password hash in responses\<close>

text \<open>
  C4. \<open>getCurrentUser\<close> answers with the stored document as it is: whatever is stored
  under \<open>password\<close> is in the response. The specification has no response contain it.
\<close>

theorem getCurrentUser_returns_password:
  assumes "findById w (Oid uid) = Some u"
  shows "sentStatus (getCurrentUser w uid) = Some 200 \<and>
         field (docOf (returned (getCurrentUser w uid))) ''password'' = field u ''password''"
  using assms
  by (simp add: getCurrentUser_def sentStatus_def returned_def respond_def docOf_def)

text \<open>On the small installation the response for alice carries her stored hash.\<close>

theorem getCurrentUser_returns_password_witness:
  "findById sampleWorld (Oid 101) = Some alice \<and>
   field (docOf (returned (getCurrentUser sampleWorld 101))) ''password'' = Str ''bcrypt:Secret#12345''"
  using getCurrentUser_returns_password [OF findById_alice] findById_alice
  by (simp add: alice_def field_def)

text \<open>\<open>updateAccountDetails\<close> answers with the whole updated document as well.\<close>

lemma updateAccountDetails_returns_password:
  "field (docOf (returned (updateAccountDetails sampleWorld 101 (Some ''Alice B'') None))) ''password'' =
     Str ''bcrypt:Secret#12345''"
  by (simp add: updateAccountDetails_def findByIdAndUpdate_def findById_alice ofBody_def
        returned_def respond_def docOf_def)
     (simp add: alice_def field_def)

text \<open>The handlers that select the field away do keep it out of the response.\<close>

lemma updateAvatarFile_hides_password:
  "field (docOf (returned (updateAvatarFile e w uid p))) ''password'' = Undefined"
  by (simp add: updateAvatarFile_def Let_def findByIdAndUpdate_def returned_def respond_def
        docOf_def field_select_without findById_def
      split: option.splits)

lemma updateCoverImageFile_hides_password:
  "field (docOf (returned (updateCoverImageFile e w uid p))) ''password'' = Undefined"
  by (simp add: updateCoverImageFile_def Let_def findByIdAndUpdate_def returned_def respond_def
        docOf_def field_select_without findById_def
      split: option.splits)

lemma registerUser_try_hides_password:
  "field (docOf (returned (registerUser_try e w un em fn pw av cv))) ''password'' = Undefined"
  by (simp add: registerUser_try_def Let_def returned_def respond_def
        docOf_def field_select_without
      split: option.splits)

lemma registerUser_hides_password:
  "field (docOf (returned (registerUser e w un em fn pw av cv))) ''password'' = Undefined"
proof -
  have "returned (registerUser e w un em fn pw av cv) = Undefined \<or>
        returned (registerUser e w un em fn pw av cv) = returned (registerUser_try e w un em fn pw av cv)"
    unfolding registerUser_def
    by (simp add: returned_catch split: option.splits) (simp add: returned_def)
  then show ?thesis
    using registerUser_try_hides_password [of e w un em fn pw av cv]
    by (auto simp: docOf_def)
qed

lemma loginUser_hides_password:
  "field (docOf (field (docOf (returned (loginUser e w em pw))) ''user'')) ''password'' = Undefined"
  by (simp add: loginUser_def Let_def returned_def genarateAccessTokenAndRefreshToken_def
        docOf_def field_select_without field_def [of "(''user'', x) # xs" for x xs]
      split: option.splits)

section \<open>Registration\<close>

text \<open>
  C5. Let the store hold an account whose username, or whose email, is stored
  case-folded and equals the one of the request when case is ignored. Then the
  registration is refused with status 400 and nothing is written; when no field of the
  request is blank, the refusal is the 400 \<open>User already exists\<close> of the existence check,
  whose filter the model folds before it is matched.
\<close>

theorem registerUser_case_insensitive_conflict:
  assumes x: "x \<in> set (users w)"
    and same:
      "(username = Some u \<and> field x ''username'' = Str stored \<and>
        toLowerCase stored = stored \<and> toLowerCase u = toLowerCase stored) \<or>
       (email = Some m \<and> field x ''email'' = Str stored \<and>
        toLowerCase stored = stored \<and> toLowerCase m = toLowerCase stored)"
  shows "thrownStatus (registerUser e w username email fullName password
                          avatarLocalPath coverImageLocalPath) = Some 400 \<and>
         snd (registerUser e w username email fullName password
                avatarLocalPath coverImageLocalPath) = w \<and>
         (\<not> list_ex (\<lambda>x. case x of None \<Rightarrow> False | Some s \<Rightarrow> trim s = [])
               [username, email, fullName, password] \<longrightarrow>
          registerUser e w username email fullName password avatarLocalPath coverImageLocalPath =
            (Inl (ApiError 400 ''User already exists''), w))"
proof -
  have hit: "pathEq ''username'' (ofBody username) x \<or> pathEq ''email'' (ofBody email) x"
    using same by (auto simp: pathEq_def schemaCast_def ofBody_def eqMatch_def)
  have "findOne w (\<lambda>d. pathEq ''username'' (ofBody username) d \<or>
                        pathEq ''email'' (ofBody email) d) \<noteq> None"
    unfolding findOne_def find_None_iff using x hit by blast
  then obtain existingUser where
    "findOne w (\<lambda>d. pathEq ''username'' (ofBody username) d \<or>
                     pathEq ''email'' (ofBody email) d) = Some existingUser"
    by blast
  then show ?thesis
    by (simp add: registerUser_def thrownStatus_def)
qed

text \<open>
  On the small installation: alice is registered as \<open>alice@example.com\<close>, and dave's
  registration with \<open>ALICE@example.com\<close> is refused with \<open>User already exists\<close>.
\<close>

theorem registerUser_case_insensitive_conflict_witness:
  "alice \<in> set (users sampleWorld) \<and>
   field alice ''email'' = Str ''alice@example.com'' \<and>
   toLowerCase ''ALICE@example.com'' = ''alice@example.com'' \<and>
   registerUser sampleEnv sampleWorld (Some ''dave'') (Some ''ALICE@example.com'')
       (Some ''Dave D'') (Some ''Passw0rd!!x'') (Some ''a.png'') None =
     (Inl (ApiError 400 ''User already exists''), sampleWorld)"
proof -
  have a: "alice \<in> set (users sampleWorld)"
    by (simp add: sampleWorld_def)
  have f: "field alice ''email'' = Str ''alice@example.com''"
    by (simp add: alice_def field_def)
  have l: "toLowerCase ''alice@example.com'' = ''alice@example.com''"
    by (simp add: lower_defs)
  have r: "toLowerCase ''ALICE@example.com'' = ''alice@example.com''"
    by (simp add: lower_defs)
  have same:
    "(Some ''dave'' = Some ''dave'' \<and> field alice ''username'' = Str ''alice@example.com'' \<and>
      toLowerCase ''alice@example.com'' = ''alice@example.com'' \<and>
      toLowerCase ''dave'' = toLowerCase ''alice@example.com'') \<or>
     (Some ''ALICE@example.com'' = Some ''ALICE@example.com'' \<and>
      field alice ''email'' = Str ''alice@example.com'' \<and>
      toLowerCase ''alice@example.com'' = ''alice@example.com'' \<and>
      toLowerCase ''ALICE@example.com'' = toLowerCase ''alice@example.com'')"
    using f l r by simp
  show ?thesis
    using registerUser_case_insensitive_conflict
            [OF a same, of sampleEnv "Some ''Dave D''" "Some ''Passw0rd!!x''" "Some ''a.png''" None]
          sample_no_blank a f r
    by simp
qed

text \<open>A blank field is refused with 400 before anything is written.\<close>

lemma registerUser_blank_field:
  assumes "list_ex (\<lambda>x. case x of None \<Rightarrow> False | Some s \<Rightarrow> trim s = [])
               [username, email, fullName, password]"
  shows "registerUser e w username email fullName password avatarLocalPath coverImageLocalPath =
           (Inl (ApiError 400 ''All fields are required''), w)"
  unfolding registerUser_def using assms by (simp only: if_True)

text \<open>
  C6. A registration with all four fields filled in, no account of that username or
  email, and no avatar file, is refused with status 500, not 400: the 400 for the missing
  avatar is thrown inside the \<open>try\<close> block, whose \<open>catch\<close> replaces it. No account is
  created. The specification has status 400.
\<close>

theorem registerUser_without_avatar:
  assumes "\<not> list_ex (\<lambda>x. case x of None \<Rightarrow> False | Some s \<Rightarrow> trim s = [])
               [username, email, fullName, password]"
    and "findOne w (\<lambda>d. pathEq ''username'' (ofBody username) d \<or>
                         pathEq ''email'' (ofBody email) d) = None"
    and "\<not> truthy (ofBody avatarLocalPath)"
  shows "registerUser e w username email fullName password avatarLocalPath coverImageLocalPath =
           (Inl (ApiError 500 ''Internal server error during registration''), w)"
proof -
  have "registerUser_try e w username email fullName password avatarLocalPath coverImageLocalPath =
          (Inl (ApiError 400 ''Avatar image is required''), w)"
    using assms(3) by (simp add: registerUser_try_def)
  then show ?thesis
    unfolding registerUser_def using assms(1,2) by simp
qed

text \<open>On the small installation: dave registers without an avatar.\<close>

theorem registerUser_without_avatar_witness:
  "\<not> truthy (ofBody None) \<and>
   registerUser sampleEnv sampleWorld (Some ''dave'') (Some ''dave@example.com'') (Some ''Dave D'')
       (Some ''Passw0rd!!x'') None None =
     (Inl (ApiError 500 ''Internal server error during registration''), sampleWorld) \<and>
   thrownStatus (registerUser sampleEnv sampleWorld (Some ''dave'') (Some ''dave@example.com'')
       (Some ''Dave D'') (Some ''Passw0rd!!x'') None None) \<noteq> Some 400"
proof -
  have h: "\<not> truthy (ofBody None)" by (simp add: ofBody_def)
  show ?thesis
    using registerUser_without_avatar [OF sample_dave_no_blank sample_dave_free h, of sampleEnv None] h
    by (simp add: thrownStatus_def)
qed

section \<open>Password change\<close>

text \<open>
  C7 as the specification states it fails: alice's password change with a wrong old
  password is refused with status 400, not 401.
\<close>

theorem currentPasswordChange_wrong_old_password_counterexample:
  "thrownStatus (currentPasswordChange sampleEnv sampleWorld 101 (Some ''wrong'') (Some ''N3w!Passw0rd''))
     = Some 400 \<and>
   thrownStatus (currentPasswordChange sampleEnv sampleWorld 101 (Some ''wrong'') (Some ''N3w!Passw0rd''))
     \<noteq> Some 401"
  by (simp add: currentPasswordChange_def findById_alice thrownStatus_def)
     (simp add: sampleEnv_def alice_def field_def)

text \<open>
  C7, as the code has it. When the old password does not match the stored hash of an
  existing account, the change is refused with status 400 and the message
  \<open>Invalid old password\<close>, and the store is unchanged.
\<close>

theorem currentPasswordChange_wrong_old_password:
  assumes "findById w (Oid userId) = Some user"
    and "\<not> isPasswordCorrect e user oldPassword"
  shows "currentPasswordChange e w userId oldPassword newPassword =
           (Inl (ApiError 400 ''Invalid old password''), w)"
  using assms by (simp add: currentPasswordChange_def)

text \<open>On the small installation: alice with the old password \<open>wrong\<close>.\<close>

theorem currentPasswordChange_wrong_old_password_witness:
  "findById sampleWorld (Oid 101) = Some alice \<and>
   \<not> isPasswordCorrect sampleEnv alice (Some ''wrong'') \<and>
   currentPasswordChange sampleEnv sampleWorld 101 (Some ''wrong'') (Some ''N3w!Passw0rd'') =
     (Inl (ApiError 400 ''Invalid old password''), sampleWorld)"
proof -
  have h: "\<not> isPasswordCorrect sampleEnv alice (Some ''wrong'')"
    by (simp add: sampleEnv_def alice_def field_def)
  show ?thesis
    using currentPasswordChange_wrong_old_password [OF findById_alice h] findById_alice h
    by simp
qed

text \<open>The pattern accepts only passwords that meet the policy as the specification words it.\<close>

lemma lookahead_list_ex: "lookahead cls s \<Longrightarrow> list_ex (\<lambda>c. c \<in> set cls) s"
proof -
  assume h: "lookahead cls s"
  let ?r = "dropWhile (\<lambda>c. c \<notin> set cls \<and> \<not> isLineTerminator c) s"
  from h obtain c r where r: "?r = c # r" and c: "c \<in> set cls"
    by (auto simp: lookahead_def split: list.splits)
  have "c \<in> set ?r" using r by simp
  then have "c \<in> set s" by (rule set_dropWhileD)
  with c show ?thesis by (auto simp: list_ex_iff)
qed

lemma passwordRegex_strong: "passwordRegex_test s \<Longrightarrow> strongPassword s"
  by (simp add: passwordRegex_test_def strongPassword_def lookahead_list_ex)

lemma currentPasswordChange_rejects:
  assumes "findById w (Oid uid) = Some user"
    and "isPasswordCorrect e user new \<or> \<not> strongPassword (jsString new)"
  shows "thrownStatus (currentPasswordChange e w uid old new) = Some 400 \<and>
         snd (currentPasswordChange e w uid old new) = w"
  using assms passwordRegex_strong [of "jsString new"]
  by (auto simp: currentPasswordChange_def thrownStatus_def)

text \<open>
  C8. For an existing account, a new password that is the current one, or that fails the
  policy (ten characters, a lowercase letter, an uppercase letter, a digit, a symbol of
  the fixed set), is refused with status 400 and the store is unchanged. \<open>short1!\<close> is too
  short, \<open>alllowercase1!\<close> has no uppercase letter and \<open>NoDigits!!\<close> has no digit; each is
  refused with 400.
\<close>

theorem currentPasswordChange_new_password_policy:
  assumes "findById w (Oid userId) = Some user"
  shows "(isPasswordCorrect e user newPassword \<or> \<not> strongPassword (jsString newPassword) \<longrightarrow>
            thrownStatus (currentPasswordChange e w userId oldPassword newPassword) = Some 400 \<and>
            snd (currentPasswordChange e w userId oldPassword newPassword) = w) \<and>
         length ''short1!'' < 10 \<and>
         thrownStatus (currentPasswordChange e w userId oldPassword (Some ''short1!'')) = Some 400 \<and>
         \<not> list_ex (\<lambda>c. c \<in> set asciiUpper) ''alllowercase1!'' \<and>
         thrownStatus (currentPasswordChange e w userId oldPassword (Some ''alllowercase1!'')) = Some 400 \<and>
         \<not> list_ex (\<lambda>c. c \<in> set asciiDigit) ''NoDigits!!'' \<and>
         thrownStatus (currentPasswordChange e w userId oldPassword (Some ''NoDigits!!'')) = Some 400"
proof -
  have s1: "\<not> strongPassword (jsString (Some ''short1!''))"
    by (simp add: strongPassword_def jsString_def)
  have u2: "\<not> list_ex (\<lambda>c. c \<in> set asciiUpper) ''alllowercase1!''"
    by (simp add: asciiUpper_def)
  have s2: "\<not> strongPassword (jsString (Some ''alllowercase1!''))"
    using u2 by (simp add: strongPassword_def jsString_def)
  have d3: "\<not> list_ex (\<lambda>c. c \<in> set asciiDigit) ''NoDigits!!''"
    by (simp add: asciiDigit_def)
  have s3: "\<not> strongPassword (jsString (Some ''NoDigits!!''))"
    using d3 by (simp add: strongPassword_def jsString_def)
  show ?thesis
    using currentPasswordChange_rejects [OF assms, of e newPassword oldPassword]
      currentPasswordChange_rejects [OF assms, of e "Some ''short1!''" oldPassword]
      currentPasswordChange_rejects [OF assms, of e "Some ''alllowercase1!''" oldPassword]
      currentPasswordChange_rejects [OF assms, of e "Some ''NoDigits!!''" oldPassword]
      s1 s2 s3 u2 d3
    by simp
qed

text \<open>
  On the small installation: alice, with her right old password, asks for her current
  password again, and for \<open>NoDigits!!\<close>.
\<close>

theorem currentPasswordChange_new_password_policy_witness:
  "findById sampleWorld (Oid 101) = Some alice \<and>
   isPasswordCorrect sampleEnv alice (Some ''Secret#12345'') \<and>
   thrownStatus (currentPasswordChange sampleEnv sampleWorld 101 (Some ''Secret#12345'')
                   (Some ''Secret#12345'')) = Some 400 \<and>
   thrownStatus (currentPasswordChange sampleEnv sampleWorld 101 (Some ''Secret#12345'')
                   (Some ''NoDigits!!'')) = Some 400 \<and>
   snd (currentPasswordChange sampleEnv sampleWorld 101 (Some ''Secret#12345'')
          (Some ''Secret#12345'')) = sampleWorld"
proof -
  have h: "isPasswordCorrect sampleEnv alice (Some ''Secret#12345'')"
    by (simp add: sampleEnv_def alice_def field_def)
  show ?thesis
    using currentPasswordChange_new_password_policy
            [OF findById_alice, of sampleEnv "Some ''Secret#12345''" "Some ''Secret#12345''"]
          findById_alice h
    by simp
qed

section \<open>Avatar and cover replacement\<close>

text \<open>
  C9. On a successful avatar update that replaces a different, existing avatar, the
  effects are, in this order: the upload, the deletion of the old asset, the update of
  the account. The deletion comes before the new reference is persisted; the
  specification has it after.
\<close>

theorem updateAvatarFile_deletes_before_update:
  assumes "findById w (Oid userId) = Some user"
    and "p \<noteq> []"
    and "uploadOnCloudinary e p = Some uploaded"
    and "field uploaded ''url'' = Str new"
    and "new \<noteq> []"
    and "field user ''avatar'' = Str old"
    and "old \<noteq> []"
    and "old \<noteq> new"
    and "deleteCloudinaryImage e (Str old) = None"
  shows "sentStatus (updateAvatarFile e w userId (Some p)) = Some 200 \<and>
         trace (snd (updateAvatarFile e w userId (Some p))) =
           trace w @ [CloudUpload p, CloudDelete (Str old),
                      UserUpdated (Oid userId) (setField ''avatar'' (Str new) user)]"
  using assms
  by (simp add: updateAvatarFile_def Let_def ofBody_def jsString_def urlOf_def
        findByIdAndUpdate_def sentStatus_def respond_def)

text \<open>On the small installation: alice replaces \<open>cdn/a.png\<close> by \<open>cdn/new.png\<close>.\<close>

theorem updateAvatarFile_deletes_before_update_witness:
  "findById sampleWorld (Oid 101) = Some alice \<and>
   uploadOnCloudinary sampleEnv ''new.png'' = Some [(''url'', Str ''cdn/new.png'')] \<and>
   field alice ''avatar'' = Str ''cdn/a.png'' \<and>
   deleteCloudinaryImage sampleEnv (Str ''cdn/a.png'') = None \<and>
   trace (snd (updateAvatarFile sampleEnv sampleWorld 101 (Some ''new.png''))) =
     trace sampleWorld @
       [CloudUpload ''new.png'', CloudDelete (Str ''cdn/a.png''),
        UserUpdated (Oid 101) (setField ''avatar'' (Str ''cdn/new.png'') alice)]"
proof -
  have up: "uploadOnCloudinary sampleEnv ''new.png'' = Some [(''url'', Str ''cdn/new.png'')]"
    by (simp add: sampleEnv_def)
  have url: "field [(''url'', Str ''cdn/new.png'')] ''url'' = Str ''cdn/new.png''"
    by (simp add: field_def)
  have old: "field alice ''avatar'' = Str ''cdn/a.png''"
    by (simp add: alice_def field_def)
  have del: "deleteCloudinaryImage sampleEnv (Str ''cdn/a.png'') = None"
    by (simp add: sampleEnv_def)
  show ?thesis
    using updateAvatarFile_deletes_before_update [OF findById_alice _ up url _ old _ _ del]
      findById_alice up old del
    by simp
qed

text \<open>The cover image handler does it in the other order: update, then deletion.\<close>

lemma updateCoverImageFile_updates_before_delete:
  assumes "findById w (Oid userId) = Some user"
    and "p \<noteq> []"
    and "uploadOnCloudinary e p = Some uploaded"
    and "field uploaded ''url'' = Str new"
    and "new \<noteq> []"
    and "field user ''coverImage'' = Str old"
    and "old \<noteq> []"
    and "old \<noteq> new"
    and "deleteCloudinaryImage e (Str old) = None"
  shows "sentStatus (updateCoverImageFile e w userId (Some p)) = Some 200 \<and>
         trace (snd (updateCoverImageFile e w userId (Some p))) =
           trace w @ [CloudUpload p,
                      UserUpdated (Oid userId) (setField ''coverImage'' (Str new) user),
                      CloudDelete (Str old)]"
  using assms
  by (simp add: updateCoverImageFile_def Let_def ofBody_def jsString_def urlOf_def
        findByIdAndUpdate_def sentStatus_def respond_def)

text \<open>When the new reference is the old one, nothing is deleted.\<close>

lemma updateAvatarFile_same_reference:
  assumes "findById w (Oid userId) = Some user"
    and "p \<noteq> []"
    and "uploadOnCloudinary e p = Some uploaded"
    and "field uploaded ''url'' = Str new"
    and "new \<noteq> []"
    and "field user ''avatar'' = Str new"
  shows "sentStatus (updateAvatarFile e w userId (Some p)) = Some 200 \<and>
         trace (snd (updateAvatarFile e w userId (Some p))) =
           trace w @ [CloudUpload p,
                      UserUpdated (Oid userId) (setField ''avatar'' (Str new) user)]"
  using assms
  by (simp add: updateAvatarFile_def Let_def ofBody_def jsString_def urlOf_def
        findByIdAndUpdate_def sentStatus_def respond_def)

section \<open>Profile update\<close>

text \<open>
  C10. For an existing account, when the full name sent is the stored full name, or the
  username sent is the stored username, the update is refused with status 400 whatever
  the other field is, and the store is unchanged.
\<close>

theorem updateAccountDetails_same_value_rejected:
  assumes "findById w (Oid userId) = Some currentUser"
    and "(fullName = Some f \<and> field currentUser ''fullName'' = Str f) \<or>
         (username = Some u \<and> field currentUser ''username'' = Str u)"
  shows "thrownStatus (updateAccountDetails w userId fullName username) = Some 400 \<and>
         snd (updateAccountDetails w userId fullName username) = w"
  using assms
  by (auto simp: updateAccountDetails_def thrownStatus_def ofBody_def split: option.splits)

text \<open>
  On the small installation: alice sends her stored full name together with a new
  username.
\<close>

theorem updateAccountDetails_same_value_rejected_witness:
  "findById sampleWorld (Oid 101) = Some alice \<and>
   field alice ''fullName'' = Str ''Alice A'' \<and>
   field alice ''username'' \<noteq> Str ''alice2'' \<and>
   thrownStatus (updateAccountDetails sampleWorld 101 (Some ''Alice A'') (Some ''alice2'')) = Some 400 \<and>
   snd (updateAccountDetails sampleWorld 101 (Some ''Alice A'') (Some ''alice2'')) = sampleWorld"
proof -
  have f: "field alice ''fullName'' = Str ''Alice A''"
    by (simp add: alice_def field_def)
  have u: "field alice ''username'' \<noteq> Str ''alice2''"
    by (simp add: alice_def field_def)
  have h: "(Some ''Alice A'' = Some ''Alice A'' \<and> field alice ''fullName'' = Str ''Alice A'') \<or>
           (Some ''alice2'' = Some ''alice2'' \<and> field alice ''username'' = Str ''alice2'')"
    using f by simp
  show ?thesis
    using updateAccountDetails_same_value_rejected [OF findById_alice h] findById_alice f u
    by simp
qed

end
